theory Spec2Isabelle
  imports Main "HOL-Library.Word"
begin

section \<open>Data model of touchpadlib.c\<close>

text \<open>
  \<^verbatim>\<open>struct input_event\<close> comes from \<^verbatim>\<open>linux/input.h\<close>: a timestamp
  (\<^verbatim>\<open>time.tv_sec\<close>, \<^verbatim>\<open>time.tv_usec\<close>), the unsigned 16-bit \<^verbatim>\<open>type\<close> and
  \<^verbatim>\<open>code\<close>, and the signed 32-bit \<^verbatim>\<open>value\<close>. The timestamp and the value are only
  ever copied into fields of the same C type, never computed with, so they are integers
  here; \<^verbatim>\<open>type\<close> and \<^verbatim>\<open>code\<close> are compared after widening and stay words.
  The fields \<^verbatim>\<open>type\<close>, \<^verbatim>\<open>code\<close> and \<^verbatim>\<open>value\<close> carry the prefix \<open>ev_\<close>.
\<close>

record input_event =
  tv_sec :: int
  tv_usec :: int
  ev_type :: "16 word"
  ev_code :: "16 word"
  ev_value :: int

text \<open>
  Modelled from the spec: \<^verbatim>\<open>struct touchpad_event\<close> is declared in
  \<^verbatim>\<open>touchpadlib.h\<close>, which is not among the sources. Its five fields are the ones
  that \<^verbatim>\<open>reset_touchpad_event\<close> and \<^verbatim>\<open>print_event\<close> name; the specification
  gives them as integers, the three axes with the sentinel \<open>-1\<close> for "absent".
\<close>

record touchpad_event =
  x :: int
  y :: int
  pressure :: int
  seconds :: int
  useconds :: int

text \<open>
  Modelled from the spec: the event types and codes come from the system header
  \<^verbatim>\<open>linux/input.h\<close>, which is not among the sources; the specification names them
  (absolute axis, key, sync, relative motion; X, Y, pressure). They have the kernel's
  values (\<^verbatim>\<open>EV_ABS\<close> is 0x03, \<^verbatim>\<open>ABS_PRESSURE\<close> is 0x18), and \<^verbatim>\<open>EV_SYN\<close> is
  also defined as 0 in the file itself. The proofs use only that the three axis codes
  differ and that the other event types differ from \<^verbatim>\<open>EV_ABS\<close>.
\<close>

definition EV_SYN :: "32 word" where "EV_SYN = 0"
definition EV_KEY :: "32 word" where "EV_KEY = 1"
definition EV_REL :: "32 word" where "EV_REL = 2"
definition EV_ABS :: "32 word" where "EV_ABS = 3"
definition SYN_REPORT :: "32 word" where "SYN_REPORT = 0"
definition ABS_X :: "32 word" where "ABS_X = 0"
definition ABS_Y :: "32 word" where "ABS_Y = 1"
definition ABS_PRESSURE :: "32 word" where "ABS_PRESSURE = 24"

section \<open>The operations\<close>

text \<open>\<^verbatim>\<open>reset_touchpad_event\<close>: the three axes get the sentinel \<open>-1\<close>, the time 0.\<close>

definition reset_touchpad_event :: "touchpad_event \<Rightarrow> touchpad_event" where
  "reset_touchpad_event event =
     event\<lparr>x := - 1, y := - 1, pressure := - 1, seconds := 0, useconds := 0\<rparr>"

text \<open>
  The body of the \<^verbatim>\<open>for\<close> loop of \<^verbatim>\<open>fetch_touchpad_event\<close> for index \<open>i\<close>
  and the event \<^verbatim>\<open>ev[i]\<close>: the widening of type and code to \<^verbatim>\<open>unsigned int\<close>,
  the timestamp in the first iteration only, then the branch on type and code.
\<close>

definition loop_body :: "nat \<Rightarrow> input_event \<Rightarrow> touchpad_event \<Rightarrow> touchpad_event" where
  "loop_body i e event =
     (let type = (ucast (ev_type e) :: 32 word);
          code = (ucast (ev_code e) :: 32 word);
          event1 = (if i = 0 then event\<lparr>seconds := tv_sec e, useconds := tv_usec e\<rparr>
                    else event)
      in if type = EV_ABS then
           (if code = ABS_X then event1\<lparr>x := ev_value e\<rparr>
            else if code = ABS_Y then event1\<lparr>y := ev_value e\<rparr>
            else if code = ABS_PRESSURE then event1\<lparr>pressure := ev_value e\<rparr>
            else event1)
         else event1)"

text \<open>
  The loop \<^verbatim>\<open>for (i = 0; i < rd / sizeof(struct input_event); i++)\<close>, from index
  \<open>i\<close> up to the bound \<open>n\<close>, over the buffer \<open>ev\<close>.
\<close>

function fetch_loop ::
  "nat \<Rightarrow> nat \<Rightarrow> input_event list \<Rightarrow> touchpad_event \<Rightarrow> touchpad_event" where
  "fetch_loop i n ev event =
     (if i < n then fetch_loop (Suc i) n ev (loop_body i (ev ! i) event) else event)"
  by pat_completeness auto
termination
  by (relation "measure (\<lambda>(i, n, ev, event). n - i)") auto

declare fetch_loop.simps [simp del]

text \<open>
  \<^verbatim>\<open>fetch_touchpad_event\<close>. The call \<^verbatim>\<open>read(fd, ev, sizeof(struct input_event) * 64)\<close>
  is an effect of the environment: the model takes its outcome, the returned count
  \<open>rd\<close> and the 64-slot buffer \<open>ev\<close> as the read left it. The size \<open>sz\<close> of one
  \<^verbatim>\<open>struct input_event\<close> is fixed by the platform's header and is a parameter. The
  caller's record is passed in and handed back beside the return code, so that the
  model says what the call does to \<^verbatim>\<open>*event\<close> on both paths.
\<close>

definition fetch_touchpad_event ::
  "nat \<Rightarrow> int \<Rightarrow> input_event list \<Rightarrow> touchpad_event \<Rightarrow> int \<times> touchpad_event" where
  "fetch_touchpad_event sz rd ev event =
     (if rd < int sz then (1, event)
      else (0, fetch_loop 0 (nat rd div sz) ev (reset_touchpad_event event)))"

section \<open>Vocabulary of the properties\<close>

text \<open>
  What \<^verbatim>\<open>read\<close> guarantees about its outcome: a record has a positive size, the
  count never exceeds the \<open>sz * 64\<close> bytes asked for, and the buffer has its 64 slots.
\<close>

definition read_post :: "nat \<Rightarrow> int \<Rightarrow> input_event list \<Rightarrow> bool" where
  "read_post sz rd ev = (0 < sz \<and> rd \<le> int (sz * 64) \<and> length ev = 64)"

text \<open>The batch of a read: the records of the buffer that the read filled completely.\<close>

definition batch :: "nat \<Rightarrow> int \<Rightarrow> input_event list \<Rightarrow> input_event list" where
  "batch sz rd ev = take (nat rd div sz) ev"


text \<open>
  The decoder. The source has no function of its own for it: it is the branch on type
  and code inside the loop body. \<open>classify_axis\<close> is that branch with the outcome
  named instead of the assignment made, over the two \<^verbatim>\<open>unsigned int\<close> locals.
\<close>

datatype axis = AxisX | AxisY | AxisPressure | AxisNone

definition classify_axis :: "32 word \<Rightarrow> 32 word \<Rightarrow> axis" where
  "classify_axis type code =
     (if type = EV_ABS then
        (if code = ABS_X then AxisX
         else if code = ABS_Y then AxisY
         else if code = ABS_PRESSURE then AxisPressure
         else AxisNone)
      else AxisNone)"

text \<open>The classification of a raw event, after the widening the loop body does.\<close>

definition axis_of :: "input_event \<Rightarrow> axis" where
  "axis_of e = classify_axis (ucast (ev_type e)) (ucast (ev_code e))"

text \<open>
  The reduction step in the specification's words: the field named by the
  classification is overwritten with the event's value, and an irrelevant event changes
  nothing; the first event of the batch gives the timestamp.
\<close>

definition overwrite :: "axis \<Rightarrow> int \<Rightarrow> touchpad_event \<Rightarrow> touchpad_event" where
  "overwrite a v event =
     (case a of AxisX \<Rightarrow> event\<lparr>x := v\<rparr> | AxisY \<Rightarrow> event\<lparr>y := v\<rparr>
      | AxisPressure \<Rightarrow> event\<lparr>pressure := v\<rparr> | AxisNone \<Rightarrow> event)"

definition stamp :: "nat \<Rightarrow> input_event \<Rightarrow> touchpad_event \<Rightarrow> touchpad_event" where
  "stamp i e event =
     (if i = 0 then event\<lparr>seconds := tv_sec e, useconds := tv_usec e\<rparr> else event)"

text \<open>
  The loop body run over a list of events in order, the first one at index \<open>i\<close>:
  the loop seen as a recursion on the batch instead of on the index.
\<close>

fun fold_events :: "nat \<Rightarrow> input_event list \<Rightarrow> touchpad_event \<Rightarrow> touchpad_event" where
  "fold_events i [] event = event"
| "fold_events i (e # es) event = fold_events (Suc i) es (loop_body i e event)"

text \<open>
  The value of the last event of axis \<open>a\<close> in a list of events, and the sentinel
  \<open>-1\<close> when the list has none.
\<close>

definition last_value :: "axis \<Rightarrow> input_event list \<Rightarrow> int" where
  "last_value a es =
     (case rev (filter (\<lambda>e. axis_of e = a) es) of [] \<Rightarrow> - 1 | e # _ \<Rightarrow> ev_value e)"

text \<open>
  Concrete material for the scenarios: an absolute-axis event, any other event, and a
  64-slot buffer that starts with the given records and is zero-filled after them.
\<close>

definition abs_event :: "16 word \<Rightarrow> int \<Rightarrow> int \<Rightarrow> int \<Rightarrow> input_event" where
  "abs_event code v s us =
     \<lparr>tv_sec = s, tv_usec = us, ev_type = 3, ev_code = code, ev_value = v\<rparr>"

definition syn_event :: "int \<Rightarrow> int \<Rightarrow> input_event" where
  "syn_event s us = \<lparr>tv_sec = s, tv_usec = us, ev_type = 0, ev_code = 0, ev_value = 0\<rparr>"

definition buffer_of :: "input_event list \<Rightarrow> input_event list" where
  "buffer_of es = take 64 (es @ replicate (64 - length es) (syn_event 0 0))"

definition scenario :: "input_event list" where
  "scenario = [abs_event 0 512 10 500, abs_event 1 300 10 500, syn_event 10 500]"

text \<open>A batch whose only X-axis event comes second, one second after the first event.\<close>

definition late_x :: "input_event list" where
  "late_x = [syn_event 1 0, abs_event 0 5 2 0]"

section \<open>The loop as a fold over the batch\<close>

lemma loop_body_classify:
  "loop_body i e event = overwrite (axis_of e) (ev_value e) (stamp i e event)"
  by (simp add: loop_body_def overwrite_def stamp_def axis_of_def classify_axis_def Let_def)

lemma x_loop_body: "x (loop_body i e event) = (if axis_of e = AxisX then ev_value e else x event)"
  by (simp add: loop_body_def axis_of_def classify_axis_def Let_def)

lemma y_loop_body: "y (loop_body i e event) = (if axis_of e = AxisY then ev_value e else y event)"
  by (simp add: loop_body_def axis_of_def classify_axis_def Let_def ABS_X_def ABS_Y_def)

lemma pressure_loop_body:
  "pressure (loop_body i e event) = (if axis_of e = AxisPressure then ev_value e else pressure event)"
  by (simp add: loop_body_def axis_of_def classify_axis_def Let_def ABS_X_def ABS_Y_def ABS_PRESSURE_def)

lemma seconds_loop_body: "seconds (loop_body i e event) = (if i = 0 then tv_sec e else seconds event)"
  by (simp add: loop_body_def Let_def)

lemma useconds_loop_body: "useconds (loop_body i e event) = (if i = 0 then tv_usec e else useconds event)"
  by (simp add: loop_body_def Let_def)

lemma fetch_loop_fold:
  "i \<le> n \<Longrightarrow> n \<le> length ev \<Longrightarrow> fetch_loop i n ev event = fold_events i (drop i (take n ev)) event"
proof (induction i n ev event rule: fetch_loop.induct)
  case (1 i n ev event)
  show ?case
  proof (cases "i < n")
    case True
    with "1.prems" have "i < length (take n ev)" by simp
    then have "drop i (take n ev) = take n ev ! i # drop (Suc i) (take n ev)"
      by (rule Cons_nth_drop_Suc [symmetric])
    with True have d: "drop i (take n ev) = ev ! i # drop (Suc i) (take n ev)"
      by simp
    from True "1.prems" have "fetch_loop (Suc i) n ev (loop_body i (ev ! i) event)
        = fold_events (Suc i) (drop (Suc i) (take n ev)) (loop_body i (ev ! i) event)"
      by (intro "1.IH") simp_all
    with True d show ?thesis
      by (simp add: fetch_loop.simps [of i n])
  next
    case False
    with "1.prems" have "i = n" by simp
    then show ?thesis
      by (simp add: fetch_loop.simps [of n n])
  qed
qed

lemma x_fold_events:
  "x (fold_events i es event) =
     (case rev (filter (\<lambda>e. axis_of e = AxisX) es) of [] \<Rightarrow> x event | e # _ \<Rightarrow> ev_value e)"
  by (induction es arbitrary: i event) (auto simp: x_loop_body split: list.splits)

lemma y_fold_events:
  "y (fold_events i es event) =
     (case rev (filter (\<lambda>e. axis_of e = AxisY) es) of [] \<Rightarrow> y event | e # _ \<Rightarrow> ev_value e)"
  by (induction es arbitrary: i event) (auto simp: y_loop_body split: list.splits)

lemma pressure_fold_events:
  "pressure (fold_events i es event) =
     (case rev (filter (\<lambda>e. axis_of e = AxisPressure) es) of [] \<Rightarrow> pressure event | e # _ \<Rightarrow> ev_value e)"
  by (induction es arbitrary: i event) (auto simp: pressure_loop_body split: list.splits)

lemma seconds_fold_events_Suc: "seconds (fold_events (Suc i) es event) = seconds event"
  by (induction es arbitrary: i event) (auto simp: seconds_loop_body)

lemma useconds_fold_events_Suc: "useconds (fold_events (Suc i) es event) = useconds event"
  by (induction es arbitrary: i event) (auto simp: useconds_loop_body)

lemma batch_nonempty:
  assumes "read_post sz rd ev" "int sz \<le> rd"
  shows "batch sz rd ev \<noteq> []"
proof -
  from assms have "0 < sz" "sz \<le> nat rd" by (simp_all add: read_post_def)
  then have "0 < nat rd div sz" by (simp add: div_greater_zero_iff)
  with assms show ?thesis by (auto simp: batch_def read_post_def)
qed

lemma batch_bound:
  assumes "read_post sz rd ev"
  shows "nat rd div sz \<le> length ev"
proof -
  from assms have "0 < sz" "nat rd \<le> 64 * sz" "length ev = 64" by (auto simp: read_post_def)
  then have "nat rd div sz \<le> (64 * sz) div sz" by (intro div_le_mono)
  with \<open>0 < sz\<close> have "nat rd div sz \<le> 64" by simp
  with \<open>length ev = 64\<close> show ?thesis by simp
qed

lemma fetch_success:
  assumes "read_post sz rd ev" "int sz \<le> rd"
  shows "fetch_touchpad_event sz rd ev event =
           (0, fold_events 0 (batch sz rd ev) (reset_touchpad_event event))"
  using assms batch_bound [OF assms(1)]
  by (simp add: fetch_touchpad_event_def fetch_loop_fold batch_def)

lemma fetch_sample:
  assumes "read_post sz rd ev" "batch sz rd ev = e0 # rest"
  shows "fetch_touchpad_event sz rd ev event =
           (0, \<lparr>x = last_value AxisX (e0 # rest), y = last_value AxisY (e0 # rest),
                pressure = last_value AxisPressure (e0 # rest),
                seconds = tv_sec e0, useconds = tv_usec e0\<rparr>)"
proof -
  have "nat rd div sz \<noteq> 0"
  proof
    assume "nat rd div sz = 0"
    with assms(2) show False by (simp add: batch_def)
  qed
  then have "sz \<le> nat rd" by (metis div_less not_le)
  moreover from assms(1) have "0 < sz" by (simp add: read_post_def)
  ultimately have ok: "int sz \<le> rd" by linarith
  let ?r = "fold_events 0 (e0 # rest) (reset_touchpad_event event)"
  have "x ?r = last_value AxisX (e0 # rest)"
    unfolding x_fold_events last_value_def by (simp add: reset_touchpad_event_def split: list.splits)
  moreover have "y ?r = last_value AxisY (e0 # rest)"
    unfolding y_fold_events last_value_def by (simp add: reset_touchpad_event_def split: list.splits)
  moreover have "pressure ?r = last_value AxisPressure (e0 # rest)"
    unfolding pressure_fold_events last_value_def by (simp add: reset_touchpad_event_def split: list.splits)
  moreover have "seconds ?r = tv_sec e0"
    by (simp add: seconds_fold_events_Suc seconds_loop_body)
  moreover have "useconds ?r = tv_usec e0"
    by (simp add: useconds_fold_events_Suc useconds_loop_body)
  ultimately have "?r = \<lparr>x = last_value AxisX (e0 # rest), y = last_value AxisY (e0 # rest),
                pressure = last_value AxisPressure (e0 # rest),
                seconds = tv_sec e0, useconds = tv_usec e0\<rparr>"
    by (intro touchpad_event.equality) simp_all
  with fetch_success [OF assms(1) ok] assms(2) show ?thesis by simp
qed

lemma last_value_none: "a \<notin> axis_of ` set es \<Longrightarrow> last_value a es = - 1"
proof -
  assume "a \<notin> axis_of ` set es"
  then have "filter (\<lambda>e. axis_of e = a) es = []"
    by (auto simp: filter_empty_conv)
  then show ?thesis by (simp add: last_value_def)
qed

lemma last_value_last:
  "filter (\<lambda>e. axis_of e = a) es = pre @ [e] \<Longrightarrow> last_value a es = ev_value e"
  by (simp add: last_value_def)

lemma reset_const:
  "reset_touchpad_event event = \<lparr>x = - 1, y = - 1, pressure = - 1, seconds = 0, useconds = 0\<rparr>"
  by (simp add: reset_touchpad_event_def)

lemma axis_of_abs_event:
  "axis_of (abs_event 0 v s us) = AxisX"
  "axis_of (abs_event 1 v s us) = AxisY"
  "axis_of (abs_event 24 v s us) = AxisPressure"
  by (simp_all add: axis_of_def abs_event_def classify_axis_def EV_ABS_def ABS_X_def ABS_Y_def
      ABS_PRESSURE_def)

lemma axis_of_syn_event: "axis_of (syn_event s us) = AxisNone"
  by (simp add: axis_of_def syn_event_def classify_axis_def EV_ABS_def)

lemma abs_event_fields:
  "ev_value (abs_event c v s us) = v" "tv_sec (abs_event c v s us) = s"
  "tv_usec (abs_event c v s us) = us"
  by (simp_all add: abs_event_def)

lemma syn_event_fields:
  "ev_value (syn_event s us) = 0" "tv_sec (syn_event s us) = s" "tv_usec (syn_event s us) = us"
  by (simp_all add: syn_event_def)

section \<open>Reduction of a batch\<close>

text \<open>
  C1: when the events of one axis in the batch are two, \<open>e1\<close> then \<open>e2\<close>
  (whatever other events stand before, between and after them), the call succeeds and
  the field of that axis holds the value of \<open>e2\<close>: the later event overwrites the
  earlier one. This holds for each of the three axes X, Y and pressure.
\<close>

theorem last_write_wins:
  assumes "read_post sz rd ev"
    and "filter (\<lambda>e. axis_of e = a) (batch sz rd ev) = [e1, e2]"
  shows "fst (fetch_touchpad_event sz rd ev event) = 0 \<and>
         (a = AxisX \<longrightarrow> x (snd (fetch_touchpad_event sz rd ev event)) = ev_value e2) \<and>
         (a = AxisY \<longrightarrow> y (snd (fetch_touchpad_event sz rd ev event)) = ev_value e2) \<and>
         (a = AxisPressure \<longrightarrow>
            pressure (snd (fetch_touchpad_event sz rd ev event)) = ev_value e2)"
proof -
  from assms(2) obtain e0 rest where b: "batch sz rd ev = e0 # rest"
    by (cases "batch sz rd ev") auto
  from assms(2) b have "filter (\<lambda>e. axis_of e = a) (e0 # rest) = [e1] @ [e2]"
    by simp
  then have "last_value a (e0 # rest) = ev_value e2"
    by (rule last_value_last)
  with fetch_sample [OF assms(1) b, of event] show ?thesis by auto
qed

theorem last_write_wins_witness:
  "x (snd (fetch_touchpad_event 24 96
       (buffer_of [abs_event 0 100 1 2, syn_event 1 2, abs_event 1 7 1 2, abs_event 0 200 1 3])
       \<lparr>x = 1, y = 2, pressure = 3, seconds = 4, useconds = 5\<rparr>)) = 200 \<and>
   y (snd (fetch_touchpad_event 24 72
       (buffer_of [abs_event 1 100 1 2, abs_event 0 9 1 2, abs_event 1 300 1 3])
       \<lparr>x = 1, y = 2, pressure = 3, seconds = 4, useconds = 5\<rparr>)) = 300 \<and>
   pressure (snd (fetch_touchpad_event 24 72
       (buffer_of [abs_event 24 100 1 2, syn_event 1 2, abs_event 24 40 1 3])
       \<lparr>x = 1, y = 2, pressure = 3, seconds = 4, useconds = 5\<rparr>)) = 40"
proof -
  let ?b1 = "buffer_of [abs_event 0 100 1 2, syn_event 1 2, abs_event 1 7 1 2, abs_event 0 200 1 3]"
  let ?b2 = "buffer_of [abs_event 1 100 1 2, abs_event 0 9 1 2, abs_event 1 300 1 3]"
  let ?b3 = "buffer_of [abs_event 24 100 1 2, syn_event 1 2, abs_event 24 40 1 3]"
  have r: "read_post 24 96 ?b1" "read_post 24 72 ?b2" "read_post 24 72 ?b3"
    by (simp_all add: read_post_def buffer_of_def)
  have f1: "filter (\<lambda>e. axis_of e = AxisX) (batch 24 96 ?b1) =
      [abs_event 0 100 1 2, abs_event 0 200 1 3]"
    by (simp add: batch_def buffer_of_def axis_of_abs_event axis_of_syn_event)
  have f2: "filter (\<lambda>e. axis_of e = AxisY) (batch 24 72 ?b2) =
      [abs_event 1 100 1 2, abs_event 1 300 1 3]"
    by (simp add: batch_def buffer_of_def axis_of_abs_event axis_of_syn_event)
  have f3: "filter (\<lambda>e. axis_of e = AxisPressure) (batch 24 72 ?b3) =
      [abs_event 24 100 1 2, abs_event 24 40 1 3]"
    by (simp add: batch_def buffer_of_def axis_of_abs_event axis_of_syn_event)
  show ?thesis
    using last_write_wins [OF r(1) f1] last_write_wins [OF r(2) f2] last_write_wins [OF r(3) f3]
    by (simp add: abs_event_fields)
qed

section \<open>The short read\<close>

text \<open>
  C2: the call returns 1 exactly when the read returned fewer bytes than one
  record, which includes a count of zero and a negative count; then the record is handed
  back as it came, with no sample in it. Every other call returns 0: there is no second
  failure.
\<close>

theorem short_read_iff:
  assumes "0 < sz"
  shows "(fst (fetch_touchpad_event sz rd ev event) = 1 \<longleftrightarrow> rd < int sz) \<and>
         (rd \<le> 0 \<longrightarrow> fetch_touchpad_event sz rd ev event = (1, event)) \<and>
         (rd < int sz \<longrightarrow> fetch_touchpad_event sz rd ev event = (1, event)) \<and>
         (fst (fetch_touchpad_event sz rd ev event) \<noteq> 1 \<longrightarrow>
            fst (fetch_touchpad_event sz rd ev event) = 0)"
  using assms by (simp add: fetch_touchpad_event_def)

theorem short_read_iff_witness:
  "fetch_touchpad_event 24 0 (buffer_of [])
     \<lparr>x = 1, y = 2, pressure = 3, seconds = 4, useconds = 5\<rparr> =
     (1, \<lparr>x = 1, y = 2, pressure = 3, seconds = 4, useconds = 5\<rparr>) \<and>
   fetch_touchpad_event 24 (- 1) (buffer_of [])
     \<lparr>x = 1, y = 2, pressure = 3, seconds = 4, useconds = 5\<rparr> =
     (1, \<lparr>x = 1, y = 2, pressure = 3, seconds = 4, useconds = 5\<rparr>) \<and>
   fetch_touchpad_event 24 23 (buffer_of scenario)
     \<lparr>x = 1, y = 2, pressure = 3, seconds = 4, useconds = 5\<rparr> =
     (1, \<lparr>x = 1, y = 2, pressure = 3, seconds = 4, useconds = 5\<rparr>) \<and>
   fst (fetch_touchpad_event 24 24 (buffer_of scenario)
     \<lparr>x = 1, y = 2, pressure = 3, seconds = 4, useconds = 5\<rparr>) = 0"
  using short_read_iff [of 24 0 "buffer_of []"
      "\<lparr>x = 1, y = 2, pressure = 3, seconds = 4, useconds = 5\<rparr>"]
    short_read_iff [of 24 "- 1" "buffer_of []"
      "\<lparr>x = 1, y = 2, pressure = 3, seconds = 4, useconds = 5\<rparr>"]
    short_read_iff [of 24 23 "buffer_of scenario"
      "\<lparr>x = 1, y = 2, pressure = 3, seconds = 4, useconds = 5\<rparr>"]
    short_read_iff [of 24 24 "buffer_of scenario"
      "\<lparr>x = 1, y = 2, pressure = 3, seconds = 4, useconds = 5\<rparr>"]
  by simp

section \<open>Batches without a tracked axis\<close>

text \<open>
  C3: for a non-empty batch none of whose events is an X, Y or pressure event, the
  sample has the sentinel \<open>-1\<close> (absent) in all three axes, and its seconds and
  microseconds are those of the first event of the batch, whatever that event is.
\<close>

theorem no_relevant_events:
  assumes "read_post sz rd ev" and "batch sz rd ev = e0 # rest"
    and "\<forall>e \<in> set (e0 # rest). axis_of e = AxisNone"
  shows "fetch_touchpad_event sz rd ev event =
           (0, \<lparr>x = - 1, y = - 1, pressure = - 1, seconds = tv_sec e0, useconds = tv_usec e0\<rparr>)"
proof -
  from assms(3) have "AxisX \<notin> axis_of ` set (e0 # rest)" by auto
  then have "last_value AxisX (e0 # rest) = - 1" by (rule last_value_none)
  moreover from assms(3) have "AxisY \<notin> axis_of ` set (e0 # rest)" by auto
  then have "last_value AxisY (e0 # rest) = - 1" by (rule last_value_none)
  moreover from assms(3) have "AxisPressure \<notin> axis_of ` set (e0 # rest)" by auto
  then have "last_value AxisPressure (e0 # rest) = - 1" by (rule last_value_none)
  ultimately show ?thesis using fetch_sample [OF assms(1,2), of event] by simp
qed

theorem no_relevant_events_witness:
  "fetch_touchpad_event 24 48 (buffer_of [abs_event 2 7 3 4, syn_event 8 9])
     \<lparr>x = 1, y = 2, pressure = 3, seconds = 4, useconds = 5\<rparr> =
     (0, \<lparr>x = - 1, y = - 1, pressure = - 1, seconds = 3, useconds = 4\<rparr>)"
proof -
  have "read_post 24 48 (buffer_of [abs_event 2 7 3 4, syn_event 8 9])"
    by (simp add: read_post_def buffer_of_def)
  moreover have "batch 24 48 (buffer_of [abs_event 2 7 3 4, syn_event 8 9]) =
      abs_event 2 7 3 4 # [syn_event 8 9]"
    by (simp add: batch_def buffer_of_def)
  moreover have "\<forall>e \<in> set (abs_event 2 7 3 4 # [syn_event 8 9]). axis_of e = AxisNone"
    by (simp add: axis_of_def abs_event_def syn_event_def classify_axis_def EV_ABS_def
        ABS_X_def ABS_Y_def ABS_PRESSURE_def)
  ultimately show ?thesis
    using no_relevant_events [of 24 48 "buffer_of [abs_event 2 7 3 4, syn_event 8 9]"
        "abs_event 2 7 3 4" "[syn_event 8 9]"]
    by (simp add: abs_event_fields)
qed

section \<open>The decoder\<close>

text \<open>
  C4: the classification returns one of the four outcomes for every pair of type
  and code; it is X, Y or pressure exactly for \<^verbatim>\<open>EV_ABS\<close> with the matching code and
  irrelevant for every other pair, among them every key, sync and relative-motion event;
  and the loop body, which has no failing branch, does what the classification says:
  it overwrites the classified field after the timestamp step.
\<close>

theorem classify_axis_total:
  "classify_axis t c \<in> {AxisX, AxisY, AxisPressure, AxisNone} \<and>
   (classify_axis t c = AxisX) = (t = EV_ABS \<and> c = ABS_X) \<and>
   (classify_axis t c = AxisY) = (t = EV_ABS \<and> c = ABS_Y) \<and>
   (classify_axis t c = AxisPressure) = (t = EV_ABS \<and> c = ABS_PRESSURE) \<and>
   (classify_axis t c = AxisNone) =
      (\<not> (t = EV_ABS \<and> (c = ABS_X \<or> c = ABS_Y \<or> c = ABS_PRESSURE))) \<and>
   classify_axis EV_KEY c = AxisNone \<and> classify_axis EV_SYN c = AxisNone \<and>
   classify_axis EV_REL c = AxisNone \<and>
   loop_body i e event = overwrite (classify_axis (ucast (ev_type e)) (ucast (ev_code e)))
     (ev_value e) (stamp i e event)"
proof -
  have "loop_body i e event = overwrite (classify_axis (ucast (ev_type e)) (ucast (ev_code e)))
     (ev_value e) (stamp i e event)"
    using loop_body_classify [of i e event] by (simp add: axis_of_def)
  moreover have "classify_axis t c \<in> {AxisX, AxisY, AxisPressure, AxisNone}"
    by (cases "classify_axis t c") simp_all
  ultimately show ?thesis
    by (simp add: classify_axis_def EV_ABS_def EV_KEY_def EV_SYN_def EV_REL_def
        ABS_X_def ABS_Y_def ABS_PRESSURE_def)
qed

theorem classify_axis_total_witness:
  "classify_axis 3 0 = AxisX \<and> classify_axis 3 1 = AxisY \<and>
   classify_axis 3 24 = AxisPressure \<and> classify_axis 3 2 = AxisNone \<and>
   classify_axis 1 0 = AxisNone"
  using classify_axis_total [of 3 0] classify_axis_total [of 3 1]
    classify_axis_total [of 3 24] classify_axis_total [of 3 2] classify_axis_total [of 1 0]
  by (simp add: EV_ABS_def ABS_X_def ABS_Y_def ABS_PRESSURE_def)

section \<open>A single X-axis event\<close>

text \<open>
  The claim C5 takes the sample's time from the X-axis event. The code takes it from
  the first event of the batch: in \<open>late_x\<close> the X-axis event carries second 2 and
  the sample carries second 1, the time of the sync event before it.
\<close>

theorem x_event_time_counterexample:
  "batch 24 48 (buffer_of late_x) = late_x \<and>
   map axis_of late_x = [AxisNone, AxisX] \<and>
   tv_sec (late_x ! 1) = 2 \<and>
   fetch_touchpad_event 24 48 (buffer_of late_x)
     \<lparr>x = - 1, y = - 1, pressure = - 1, seconds = 0, useconds = 0\<rparr> =
     (0, \<lparr>x = 5, y = - 1, pressure = - 1, seconds = 1, useconds = 0\<rparr>) \<and>
   fetch_touchpad_event 24 48 (buffer_of late_x)
     \<lparr>x = - 1, y = - 1, pressure = - 1, seconds = 0, useconds = 0\<rparr> \<noteq>
     (0, \<lparr>x = ev_value (late_x ! 1), y = - 1, pressure = - 1,
          seconds = tv_sec (late_x ! 1), useconds = tv_usec (late_x ! 1)\<rparr>)"
proof -
  have b: "batch 24 48 (buffer_of late_x) = syn_event 1 0 # [abs_event 0 5 2 0]"
    by (simp add: batch_def buffer_of_def late_x_def)
  have r: "read_post 24 48 (buffer_of late_x)"
    by (simp add: read_post_def buffer_of_def)
  have "last_value AxisX late_x = 5" "last_value AxisY late_x = - 1"
    "last_value AxisPressure late_x = - 1"
    by (simp_all add: last_value_def late_x_def axis_of_abs_event axis_of_syn_event
        abs_event_fields)
  with fetch_sample [OF r b] b show ?thesis
    by (simp add: late_x_def axis_of_abs_event axis_of_syn_event abs_event_fields
        syn_event_fields)
qed

text \<open>
  C5: (amended) for a batch with exactly one X-axis event \<open>ex\<close> and no Y or
  pressure event, the sample has the value of \<open>ex\<close> in \<open>x\<close>, the sentinel \<open>-1\<close>
  in \<open>y\<close> and \<open>pressure\<close>, and the seconds and microseconds of the first event
  \<open>e0\<close> of the batch.
\<close>

theorem single_x_event:
  assumes "read_post sz rd ev" and "batch sz rd ev = e0 # rest"
    and "filter (\<lambda>e. axis_of e = AxisX) (e0 # rest) = [ex]"
    and "AxisY \<notin> axis_of ` set (e0 # rest)"
    and "AxisPressure \<notin> axis_of ` set (e0 # rest)"
  shows "fetch_touchpad_event sz rd ev event =
           (0, \<lparr>x = ev_value ex, y = - 1, pressure = - 1,
                seconds = tv_sec e0, useconds = tv_usec e0\<rparr>)"
proof -
  from assms(3) have "filter (\<lambda>e. axis_of e = AxisX) (e0 # rest) = [] @ [ex]" by simp
  then have "last_value AxisX (e0 # rest) = ev_value ex" by (rule last_value_last)
  moreover from assms(4) have "last_value AxisY (e0 # rest) = - 1"
    by (rule last_value_none)
  moreover from assms(5) have "last_value AxisPressure (e0 # rest) = - 1"
    by (rule last_value_none)
  ultimately show ?thesis using fetch_sample [OF assms(1,2), of event] by simp
qed

theorem single_x_event_witness:
  "fetch_touchpad_event 24 48 (buffer_of late_x)
     \<lparr>x = 1, y = 2, pressure = 3, seconds = 4, useconds = 5\<rparr> =
     (0, \<lparr>x = 5, y = - 1, pressure = - 1, seconds = 1, useconds = 0\<rparr>)"
proof -
  have b: "batch 24 48 (buffer_of late_x) = syn_event 1 0 # [abs_event 0 5 2 0]"
    by (simp add: batch_def buffer_of_def late_x_def)
  have r: "read_post 24 48 (buffer_of late_x)"
    by (simp add: read_post_def buffer_of_def)
  have f: "filter (\<lambda>e. axis_of e = AxisX) (syn_event 1 0 # [abs_event 0 5 2 0]) =
      [abs_event 0 5 2 0]"
    by (simp add: axis_of_abs_event axis_of_syn_event)
  have n: "AxisY \<notin> axis_of ` set (syn_event 1 0 # [abs_event 0 5 2 0])"
    "AxisPressure \<notin> axis_of ` set (syn_event 1 0 # [abs_event 0 5 2 0])"
    by (simp_all add: axis_of_abs_event axis_of_syn_event)
  show ?thesis
    using single_x_event [OF r b f n] by (simp add: abs_event_fields syn_event_fields)
qed

section \<open>The scenario of the specification\<close>

text \<open>
  C6: for the batch of an X event 512, a Y event 300 and a sync report, all at time
  (10, 500), the sample is x 512, y 300, pressure \<open>-1\<close> (absent), seconds 10,
  microseconds 500; the sync report classifies as irrelevant and is skipped.
\<close>

theorem scenario_sample:
  assumes "read_post sz rd ev" and "batch sz rd ev = scenario"
  shows "fetch_touchpad_event sz rd ev event =
           (0, \<lparr>x = 512, y = 300, pressure = - 1, seconds = 10, useconds = 500\<rparr>) \<and>
         map axis_of scenario = [AxisX, AxisY, AxisNone] \<and>
         classify_axis EV_SYN SYN_REPORT = AxisNone"
proof -
  have a: "map axis_of scenario = [AxisX, AxisY, AxisNone]"
    by (simp add: scenario_def axis_of_def abs_event_def syn_event_def classify_axis_def
        EV_ABS_def ABS_X_def ABS_Y_def ABS_PRESSURE_def)
  have "last_value AxisX scenario = 512" "last_value AxisY scenario = 300"
    "last_value AxisPressure scenario = - 1"
    by (simp_all add: last_value_def scenario_def axis_of_def abs_event_def syn_event_def
        classify_axis_def EV_ABS_def ABS_X_def ABS_Y_def ABS_PRESSURE_def)
  moreover have "fetch_touchpad_event sz rd ev event =
      (0, \<lparr>x = last_value AxisX scenario, y = last_value AxisY scenario,
           pressure = last_value AxisPressure scenario, seconds = 10, useconds = 500\<rparr>)"
    using fetch_sample [OF assms(1), of "abs_event 0 512 10 500"
        "[abs_event 1 300 10 500, syn_event 10 500]" event] assms(2)
    by (simp add: scenario_def abs_event_def)
  ultimately show ?thesis using a
    by (simp add: classify_axis_def EV_SYN_def EV_ABS_def)
qed

theorem scenario_sample_witness:
  "fetch_touchpad_event 24 72 (buffer_of scenario)
     \<lparr>x = 1, y = 2, pressure = 3, seconds = 4, useconds = 5\<rparr> =
     (0, \<lparr>x = 512, y = 300, pressure = - 1, seconds = 10, useconds = 500\<rparr>)"
proof -
  have "read_post 24 72 (buffer_of scenario)"
    by (simp add: read_post_def buffer_of_def scenario_def)
  moreover have "batch 24 72 (buffer_of scenario) = scenario"
    by (simp add: batch_def buffer_of_def scenario_def)
  ultimately show ?thesis
    using scenario_sample [of 24 72 "buffer_of scenario"] by simp
qed

section \<open>No state between calls\<close>

text \<open>
  C7: of two successful calls in a row, the second, run on the record the first one
  left, gives the fold of the second batch from the freshly reset record: the same
  result as from any other record \<open>event'\<close>. In particular, when the second batch has
  no X-axis event its \<open>x\<close> is the sentinel \<open>-1\<close>, whatever the first call stored.
\<close>

theorem fetch_stateless:
  assumes "read_post sz rd2 ev2" and "int sz \<le> rd1" and "int sz \<le> rd2"
  shows "fetch_touchpad_event sz rd2 ev2 (snd (fetch_touchpad_event sz rd1 ev1 event0)) =
           (0, fold_events 0 (batch sz rd2 ev2)
                 \<lparr>x = - 1, y = - 1, pressure = - 1, seconds = 0, useconds = 0\<rparr>) \<and>
         fetch_touchpad_event sz rd2 ev2 (snd (fetch_touchpad_event sz rd1 ev1 event0)) =
           fetch_touchpad_event sz rd2 ev2 event' \<and>
         (AxisX \<notin> axis_of ` set (batch sz rd2 ev2) \<longrightarrow>
            x (snd (fetch_touchpad_event sz rd2 ev2
                 (snd (fetch_touchpad_event sz rd1 ev1 event0)))) = - 1)"
proof -
  have s: "fetch_touchpad_event sz rd2 ev2 e =
      (0, fold_events 0 (batch sz rd2 ev2)
            \<lparr>x = - 1, y = - 1, pressure = - 1, seconds = 0, useconds = 0\<rparr>)" for e
    using fetch_success [OF assms(1,3), of e] by (simp add: reset_const)
  have "x (fold_events 0 (batch sz rd2 ev2)
            \<lparr>x = - 1, y = - 1, pressure = - 1, seconds = 0, useconds = 0\<rparr>) = - 1"
    if "AxisX \<notin> axis_of ` set (batch sz rd2 ev2)"
  proof -
    from that have "filter (\<lambda>e. axis_of e = AxisX) (batch sz rd2 ev2) = []"
      by (force simp: filter_empty_conv)
    then show ?thesis by (simp add: x_fold_events)
  qed
  with s show ?thesis by simp
qed

theorem fetch_stateless_witness:
  "x (snd (fetch_touchpad_event 24 24 (buffer_of [abs_event 0 100 1 2])
        \<lparr>x = 0, y = 0, pressure = 0, seconds = 0, useconds = 0\<rparr>)) = 100 \<and>
   x (snd (fetch_touchpad_event 24 24 (buffer_of [abs_event 1 50 3 4])
        (snd (fetch_touchpad_event 24 24 (buffer_of [abs_event 0 100 1 2])
           \<lparr>x = 0, y = 0, pressure = 0, seconds = 0, useconds = 0\<rparr>)))) = - 1"
proof -
  have r: "read_post 24 24 (buffer_of [abs_event 1 50 3 4])"
    "read_post 24 24 (buffer_of [abs_event 0 100 1 2])"
    by (simp_all add: read_post_def buffer_of_def)
  have b: "batch 24 24 (buffer_of [abs_event 1 50 3 4]) = [abs_event 1 50 3 4]"
    "batch 24 24 (buffer_of [abs_event 0 100 1 2]) = abs_event 0 100 1 2 # []"
    by (simp_all add: batch_def buffer_of_def)
  have n: "AxisX \<notin> axis_of ` set (batch 24 24 (buffer_of [abs_event 1 50 3 4]))"
    by (simp add: b axis_of_abs_event)
  have "last_value AxisX [abs_event 0 100 1 2] = 100"
    by (simp add: last_value_def axis_of_abs_event abs_event_fields)
  with fetch_sample [OF r(2) b(2)]
  have "x (snd (fetch_touchpad_event 24 24 (buffer_of [abs_event 0 100 1 2])
        \<lparr>x = 0, y = 0, pressure = 0, seconds = 0, useconds = 0\<rparr>)) = 100"
    by simp
  moreover have le: "int 24 \<le> 24" by simp
  from fetch_stateless [OF r(1) le le, of "buffer_of [abs_event 0 100 1 2]"
        "\<lparr>x = 0, y = 0, pressure = 0, seconds = 0, useconds = 0\<rparr>"] n
  have "x (snd (fetch_touchpad_event 24 24 (buffer_of [abs_event 1 50 3 4])
        (snd (fetch_touchpad_event 24 24 (buffer_of [abs_event 0 100 1 2])
           \<lparr>x = 0, y = 0, pressure = 0, seconds = 0, useconds = 0\<rparr>)))) = - 1"
    by blast
  ultimately show ?thesis by (rule conjI)
qed

section \<open>The sentinel and the value -1\<close>

text \<open>
  C8: there are two reads with different batches and equal first timestamps, one
  with an X-axis event of value \<open>-1\<close> and one with no X-axis event, on which the call
  returns the same sample.
\<close>

theorem sentinel_collision:
  assumes "0 < sz"
  shows "\<exists>ev1 ev2 e. read_post sz (int sz) ev1 \<and> read_post sz (int sz) ev2 \<and>
           batch sz (int sz) ev1 \<noteq> batch sz (int sz) ev2 \<and>
           e \<in> set (batch sz (int sz) ev1) \<and> axis_of e = AxisX \<and> ev_value e = - 1 \<and>
           AxisX \<notin> axis_of ` set (batch sz (int sz) ev2) \<and>
           tv_sec (hd (batch sz (int sz) ev1)) = tv_sec (hd (batch sz (int sz) ev2)) \<and>
           tv_usec (hd (batch sz (int sz) ev1)) = tv_usec (hd (batch sz (int sz) ev2)) \<and>
           fetch_touchpad_event sz (int sz) ev1 event =
             fetch_touchpad_event sz (int sz) ev2 event"
proof -
  let ?e1 = "abs_event 0 (- 1) 7 8" and ?e2 = "syn_event 7 8"
  let ?ev1 = "buffer_of [?e1]" and ?ev2 = "buffer_of [?e2]"
  from assms have r: "read_post sz (int sz) ?ev1" "read_post sz (int sz) ?ev2"
    by (simp_all add: read_post_def buffer_of_def)
  from assms have b: "batch sz (int sz) ?ev1 = ?e1 # []" "batch sz (int sz) ?ev2 = ?e2 # []"
    by (simp_all add: batch_def buffer_of_def)
  have ne: "?e1 \<noteq> ?e2" by (simp add: abs_event_def syn_event_def)
  have l1: "last_value AxisX [?e1] = - 1" "last_value AxisY [?e1] = - 1"
    "last_value AxisPressure [?e1] = - 1"
    by (simp_all add: last_value_def axis_of_abs_event abs_event_fields)
  have l2: "last_value AxisX [?e2] = - 1" "last_value AxisY [?e2] = - 1"
    "last_value AxisPressure [?e2] = - 1"
    by (simp_all add: last_value_def axis_of_syn_event)
  have "fetch_touchpad_event sz (int sz) ?ev1 event = fetch_touchpad_event sz (int sz) ?ev2 event"
    using fetch_sample [OF r(1) b(1), of event] fetch_sample [OF r(2) b(2), of event] l1 l2
    by (simp add: abs_event_fields syn_event_fields)
  with r b ne show ?thesis
    by (intro exI [of _ ?ev1] exI [of _ ?ev2] exI [of _ ?e1])
      (simp add: axis_of_abs_event axis_of_syn_event abs_event_fields syn_event_fields)
qed

theorem sentinel_collision_witness:
  "\<exists>ev1 ev2 e. read_post 24 24 ev1 \<and> read_post 24 24 ev2 \<and>
           batch 24 24 ev1 \<noteq> batch 24 24 ev2 \<and>
           e \<in> set (batch 24 24 ev1) \<and> axis_of e = AxisX \<and> ev_value e = - 1 \<and>
           AxisX \<notin> axis_of ` set (batch 24 24 ev2) \<and>
           tv_sec (hd (batch 24 24 ev1)) = tv_sec (hd (batch 24 24 ev2)) \<and>
           tv_usec (hd (batch 24 24 ev1)) = tv_usec (hd (batch 24 24 ev2)) \<and>
           fetch_touchpad_event 24 24 ev1
               \<lparr>x = 1, y = 2, pressure = 3, seconds = 4, useconds = 5\<rparr> =
             fetch_touchpad_event 24 24 ev2
               \<lparr>x = 1, y = 2, pressure = 3, seconds = 4, useconds = 5\<rparr>"
  using sentinel_collision [of 24 "\<lparr>x = 1, y = 2, pressure = 3, seconds = 4, useconds = 5\<rparr>"]
  by simp

section \<open>Failure leaves the record alone\<close>

text \<open>
  C9: when the call fails with the short-read return value 1, the caller's record is
  the one it passed in: all five fields keep their values, since the check and the
  return come before \<^verbatim>\<open>reset_touchpad_event\<close>.
\<close>

theorem short_read_keeps_record:
  assumes "fst (fetch_touchpad_event sz rd ev event) = 1"
  shows "snd (fetch_touchpad_event sz rd ev event) = event"
  using assms by (auto simp: fetch_touchpad_event_def split: if_splits)

theorem short_read_keeps_record_witness:
  "fst (fetch_touchpad_event 24 10 (buffer_of [abs_event 0 7 1 2])
          \<lparr>x = 100, y = 200, pressure = 30, seconds = 5, useconds = 6\<rparr>) = 1 \<and>
   snd (fetch_touchpad_event 24 10 (buffer_of [abs_event 0 7 1 2])
          \<lparr>x = 100, y = 200, pressure = 30, seconds = 5, useconds = 6\<rparr>)
     = \<lparr>x = 100, y = 200, pressure = 30, seconds = 5, useconds = 6\<rparr>"
proof -
  have f: "fst (fetch_touchpad_event 24 10 (buffer_of [abs_event 0 7 1 2])
          \<lparr>x = 100, y = 200, pressure = 30, seconds = 5, useconds = 6\<rparr>) = 1"
    by (simp add: fetch_touchpad_event_def)
  from f short_read_keeps_record [OF f] show ?thesis by simp
qed

section \<open>Whole records only\<close>

text \<open>
  C10: when the read returns \<open>k\<close> whole records, \<open>k\<close> at least 1, and
  \<open>p\<close> more bytes that do not make a record, the quotient of the count by the
  record size is \<open>k\<close>, the call succeeds, and its result is the loop body run over
  exactly the first \<open>k\<close> records of the buffer: the same as without the \<open>p\<close>
  bytes, and the same whatever the buffer holds after the first \<open>k\<close> records.
\<close>

theorem whole_records_only:
  assumes "0 < k" and "p < sz" and "read_post sz (int (k * sz + p)) ev"
  shows "nat (int (k * sz + p)) div sz = k \<and>
         fetch_touchpad_event sz (int (k * sz + p)) ev event =
           (0, fold_events 0 (take k ev) (reset_touchpad_event event)) \<and>
         length (take k ev) = k \<and>
         fetch_touchpad_event sz (int (k * sz + p)) ev event =
           fetch_touchpad_event sz (int (k * sz)) ev event \<and>
         (length ev' = 64 \<and> take k ev' = take k ev \<longrightarrow>
            fetch_touchpad_event sz (int (k * sz + p)) ev' event =
              fetch_touchpad_event sz (int (k * sz + p)) ev event)"
proof -
  from assms(2) have "(k * sz + p) div sz = k" by simp
  then have q: "nat (int (k * sz + p)) div sz = k" by (simp only: nat_int)
  from assms(1,2) have "sz \<le> k * sz + p" by (cases k) simp_all
  then have ok: "int sz \<le> int (k * sz + p)" by (simp only: of_nat_le_iff)
  from assms(2) have "0 < sz" by simp
  from assms(1) \<open>0 < sz\<close> have ok0: "int sz \<le> int (k * sz)" by (cases k) simp_all
  from assms(3) have "int (k * sz + p) \<le> int (sz * 64)" and l: "length ev = 64"
    unfolding read_post_def by blast+
  then have "k * sz + p \<le> sz * 64" by (simp only: of_nat_le_iff)
  then have "k * sz \<le> sz * 64" by arith
  then have "int (k * sz) \<le> int (sz * 64)" by (simp only: of_nat_le_iff)
  with \<open>0 < sz\<close> l have r0: "read_post sz (int (k * sz)) ev"
    unfolding read_post_def by blast
  from \<open>0 < sz\<close> have "(k * sz) div sz = k" by simp
  then have q0: "nat (int (k * sz)) div sz = k" by (simp only: nat_int)
  have main: "fetch_touchpad_event sz (int (k * sz + p)) ev event =
      (0, fold_events 0 (take k ev) (reset_touchpad_event event))"
    using fetch_success [OF assms(3) ok, of event] q by (simp only: batch_def)
  have "fetch_touchpad_event sz (int (k * sz)) ev event =
      (0, fold_events 0 (take k ev) (reset_touchpad_event event))"
    using fetch_success [OF r0 ok0, of event] q0 by (simp only: batch_def)
  with main have same: "fetch_touchpad_event sz (int (k * sz + p)) ev event =
      fetch_touchpad_event sz (int (k * sz)) ev event"
    by simp
  from batch_bound [OF assms(3)] q have len: "length (take k ev) = k" by simp
  have "fetch_touchpad_event sz (int (k * sz + p)) ev' event =
      fetch_touchpad_event sz (int (k * sz + p)) ev event"
    if "length ev' = 64" "take k ev' = take k ev"
  proof -
    from assms(3) that(1) have r': "read_post sz (int (k * sz + p)) ev'"
      unfolding read_post_def by blast
    show ?thesis
      using fetch_success [OF r' ok, of event] q that(2) main by (simp only: batch_def)
  qed
  with q main len same show ?thesis by blast
qed

theorem whole_records_only_witness:
  "fetch_touchpad_event 24 30 (buffer_of [syn_event 1 2, abs_event 0 99 3 4])
     \<lparr>x = 1, y = 2, pressure = 3, seconds = 4, useconds = 5\<rparr> =
     (0, \<lparr>x = - 1, y = - 1, pressure = - 1, seconds = 1, useconds = 2\<rparr>)"
proof -
  have r: "read_post 24 (int (1 * 24 + 6)) (buffer_of [syn_event 1 2, abs_event 0 99 3 4])"
    by (simp add: read_post_def buffer_of_def)
  have "take 1 (buffer_of [syn_event 1 2, abs_event 0 99 3 4]) = [syn_event 1 2]"
    by (simp add: buffer_of_def)
  moreover have "fold_events 0 [syn_event 1 2]
      (reset_touchpad_event \<lparr>x = 1, y = 2, pressure = 3, seconds = 4, useconds = 5\<rparr>) =
      \<lparr>x = - 1, y = - 1, pressure = - 1, seconds = 1, useconds = 2\<rparr>"
    by (simp add: loop_body_def syn_event_def reset_touchpad_event_def EV_ABS_def)
  ultimately show ?thesis
    using whole_records_only [OF _ _ r, of "\<lparr>x = 1, y = 2, pressure = 3, seconds = 4, useconds = 5\<rparr>"]
    by simp
qed

end
